theory Spec2Isabelle
  imports Main "HOL-Library.Word"
begin

section \<open>simplessh: a shallow embedding of simplessh.go\<close>

text \<open>
  The package is glue around collaborators it imports: the Go standard library
  (\<^verbatim>\<open>net\<close>, \<^verbatim>\<open>os\<close>, \<^verbatim>\<open>os/user\<close>, \<^verbatim>\<open>io/ioutil\<close>, \<^verbatim>\<open>path/filepath\<close>), the secure-transport
  client \<^verbatim>\<open>golang.org/x/crypto/ssh\<close> with its agent client, and \<^verbatim>\<open>github.com/pkg/sftp\<close>.
  The collaborators whose answers depend on the machine and the network are the fields
  of a record \<open>World\<close>; every function of the package takes the world as its first
  argument and returns, next to its Go result, the list of the collaborator calls it
  made, in the order it made them. The two pure functions of package \<^verbatim>\<open>net\<close> that decide
  the endpoint, \<^verbatim>\<open>SplitHostPort\<close> and \<^verbatim>\<open>JoinHostPort\<close>, are written out as the standard
  library has them (\<^verbatim>\<open>net/ipsock.go\<close>).

  A Go \<^verbatim>\<open>string\<close> and a \<^verbatim>\<open>[]byte\<close> are both sequences of bytes, as \<open>char list\<close> is; the
  conversions \<^verbatim>\<open>string(b)\<close> and \<^verbatim>\<open>[]byte(s)\<close> keep the bytes, and a nil slice is the empty
  list. A result \<^verbatim>\<open>(v, error)\<close> of which only one side is meaningful is a sum
  \<open>error + 'a\<close>; where Go returns data together with an error it is a pair with an
  \<open>error option\<close>.
\<close>

subsection \<open>Data\<close>

type_synonym bytes = string

text \<open>\<^verbatim>\<open>time.Duration\<close> is an \<^verbatim>\<open>int64\<close> count of nanoseconds.\<close>

type_synonym Duration = "64 word"

definition Second :: Duration where
  "Second = 1000000000"

definition DefaultTimeout :: Duration where
  "DefaultTimeout = 30 * Second"

text \<open>
  Errors are values. \<open>AddrError\<close> is \<^verbatim>\<open>net.AddrError{Err, Addr}\<close>; \<open>LibError\<close> is an error
  made by a collaborator, known by its text; \<open>Errorf\<close> is the value of a call of
  \<^verbatim>\<open>fmt.Errorf\<close>, kept as the format and its arguments.
\<close>

datatype error =
    AddrError (Err: string) (Addr: string)
  | LibError string
  | Errorf string "error list"

text \<open>A function that panics does not return: \<open>Panic\<close> carries the panic value.\<close>

datatype 'a outcome = Panic error | Return 'a

text \<open>\<^verbatim>\<open>os/user.User\<close>.\<close>

record User =
  Uid :: string
  Gid :: string
  Username :: string
  Name :: string
  HomeDir :: string

text \<open>Handles of the collaborators: each is known only by its identity.\<close>

datatype net_Conn = NetConn nat
datatype ssh_Signer = Signer nat
datatype ssh_HostKeyCallback = HostKeyCallback nat
datatype ssh_Conn = SshConn nat
datatype ssh_Session = Session nat
datatype sftp_Client = SftpClient nat
datatype sftp_File = SftpFile nat

text \<open>
  \<^verbatim>\<open>ssh.NewClient(sshConn, chans, reqs)\<close> wraps the three values that the handshake
  returned together; \<open>ssh_Conn\<close> stands for the three.
\<close>

datatype ssh_Client = NewClient ssh_Conn

text \<open>
  \<^verbatim>\<open>ssh.AuthMethod\<close>, by the constructor that made it: \<^verbatim>\<open>ssh.Password(pass)\<close>,
  \<^verbatim>\<open>ssh.PublicKeys(signers...)\<close>, and \<^verbatim>\<open>ssh.PublicKeysCallback(agent.NewClient(c).Signers)\<close>
  for the agent client on the connection \<open>c\<close>.
\<close>

datatype ssh_AuthMethod =
    Password string
  | PublicKeys "ssh_Signer list"
  | PublicKeysCallback net_Conn

text \<open>
  \<^verbatim>\<open>ssh.ClientConfig\<close>. A Go composite literal gives every field it does not name the
  zero value of its type: nil for a callback, the empty string, the empty list, 0.
\<close>

record ssh_ClientConfig =
  User :: string
  Auth :: "ssh_AuthMethod list"
  HostKeyCallback :: "ssh_HostKeyCallback option"
  ClientVersion :: string
  HostKeyAlgorithms :: "string list"
  Timeout :: Duration

record Client =
  SSHClient :: ssh_Client

text \<open>What a running command writes, in the order of arrival.\<close>

datatype chunk = ToStdout bytes | ToStderr bytes

subsection \<open>The collaborators\<close>

record World =
  user_Current :: "error + User"
  filepath_Join :: "string list \<Rightarrow> string"
  ioutil_ReadFile :: "string \<Rightarrow> error + bytes"
  ssh_ParsePrivateKey :: "bytes \<Rightarrow> error + ssh_Signer"
  os_Getenv :: "string \<Rightarrow> string"
  net_Dial :: "string \<Rightarrow> string \<Rightarrow> error + net_Conn"
  net_DialTimeout :: "string \<Rightarrow> string \<Rightarrow> Duration \<Rightarrow> error + net_Conn"
  ssh_NewClientConn :: "net_Conn \<Rightarrow> string \<Rightarrow> ssh_ClientConfig \<Rightarrow> error + ssh_Conn"
  ssh_NewSession :: "ssh_Client \<Rightarrow> error + ssh_Session"
  session_CombinedOutput :: "ssh_Session \<Rightarrow> string \<Rightarrow> bytes \<times> error option"
  session_Run :: "ssh_Session \<Rightarrow> string \<Rightarrow> chunk list \<times> error option"
  sftp_NewClient :: "ssh_Client \<Rightarrow> error + sftp_Client"
  sftp_Open :: "sftp_Client \<Rightarrow> string \<Rightarrow> error + sftp_File"
  ioutil_ReadAll :: "sftp_File \<Rightarrow> bytes \<times> error option"
  ssh_Close :: "ssh_Client \<Rightarrow> error option"

text \<open>The calls a function makes to its collaborators, with their arguments.\<close>

datatype event =
    EvUserCurrent
  | EvReadFile string
  | EvParsePrivateKey bytes
  | EvGetenv string
  | EvDial string string
  | EvDialTimeout string string Duration
  | EvNewClientConn net_Conn string ssh_ClientConfig
  | EvNewSession ssh_Client
  | EvCombinedOutput ssh_Session string
  | EvRun ssh_Session string
  | EvSessionClose ssh_Session
  | EvSftpNewClient ssh_Client
  | EvSftpOpen sftp_Client string
  | EvReadAll sftp_File
  | EvFileClose sftp_File
  | EvSftpClose sftp_Client
  | EvClose ssh_Client

type_synonym 'a io = "event list \<times> 'a"

text \<open>\<open>after evs r\<close> is the run \<open>r\<close> made after the calls \<open>evs\<close>.\<close>

definition after :: "event list \<Rightarrow> 'a io \<Rightarrow> 'a io" where
  "after evs r = (evs @ fst r, snd r)"

text \<open>A dial opens a connection: to the agent's socket or to the target host.\<close>

fun is_dial :: "event \<Rightarrow> bool" where
  "is_dial (EvDial network address) = True"
| "is_dial (EvDialTimeout network address timeout) = True"
| "is_dial ev = False"

fun is_target_dial :: "event \<Rightarrow> bool" where
  "is_target_dial (EvDialTimeout network address timeout) = True"
| "is_target_dial ev = False"

text \<open>The configurations handed to the handshake in a run.\<close>

fun handshake_configs :: "event list \<Rightarrow> ssh_ClientConfig list" where
  "handshake_configs [] = []"
| "handshake_configs (EvNewClientConn conn host config # evs) = config # handshake_configs evs"
| "handshake_configs (ev # evs) = handshake_configs evs"

text \<open>The paths read and the addresses dialled in a run.\<close>

fun files_read :: "event list \<Rightarrow> string list" where
  "files_read [] = []"
| "files_read (EvReadFile path # evs) = path # files_read evs"
| "files_read (ev # evs) = files_read evs"

fun dialled :: "event list \<Rightarrow> string list" where
  "dialled [] = []"
| "dialled (EvDialTimeout network address timeout # evs) = address # dialled evs"
| "dialled (ev # evs) = dialled evs"

subsection \<open>Package net: SplitHostPort and JoinHostPort\<close>

text \<open>
  \<^verbatim>\<open>IndexByte\<close> and \<^verbatim>\<open>LastIndexByte\<close> scan from the front and from the back and return
  \<open>-1\<close> when the byte does not occur.
\<close>

fun IndexByte_from :: "nat \<Rightarrow> string \<Rightarrow> char \<Rightarrow> int" where
  "IndexByte_from i [] c = -1"
| "IndexByte_from i (x # xs) c = (if x = c then int i else IndexByte_from (Suc i) xs c)"

definition IndexByte :: "string \<Rightarrow> char \<Rightarrow> int" where
  "IndexByte s c = IndexByte_from 0 s c"

fun LastIndexByte_below :: "nat \<Rightarrow> string \<Rightarrow> char \<Rightarrow> int" where
  "LastIndexByte_below 0 s c = -1"
| "LastIndexByte_below (Suc i) s c = (if s ! i = c then int i else LastIndexByte_below i s c)"

definition LastIndexByte :: "string \<Rightarrow> char \<Rightarrow> int" where
  "LastIndexByte s c = LastIndexByte_below (length s) s c"

definition missingPort :: string where
  "missingPort = ''missing port in address''"

definition tooManyColons :: string where
  "tooManyColons = ''too many colons in address''"

definition addrErr :: "string \<Rightarrow> string \<Rightarrow> error + string \<times> string" where
  "addrErr addr why = Inl (AddrError why addr)"

text \<open>
  The tail of \<^verbatim>\<open>SplitHostPort\<close>, common to both forms of host: no \<^verbatim>\<open>[\<close> from position
  \<open>j\<close> on, no \<^verbatim>\<open>]\<close> from position \<open>k\<close> on, and the port is what follows the last colon,
  at \<open>i\<close>.
\<close>

definition SplitHostPort_rest ::
  "string \<Rightarrow> int \<Rightarrow> string \<Rightarrow> nat \<Rightarrow> nat \<Rightarrow> error + string \<times> string" where
  "SplitHostPort_rest hostport i host j k =
     (if IndexByte (drop j hostport) (CHR ''['') \<ge> 0
        then addrErr hostport ''unexpected '[' in address''
      else if IndexByte (drop k hostport) (CHR '']'') \<ge> 0
        then addrErr hostport ''unexpected ']' in address''
      else Inr (host, drop (nat (i + 1)) hostport))"

text \<open>
  \<^verbatim>\<open>net.SplitHostPort\<close>. The reads \<open>hostport ! 0\<close> and \<open>hostport ! (end + 1)\<close> are in
  range where they are made: a colon was found, so the string is not empty, and
  \<open>end + 1\<close> is not the length.
\<close>

definition SplitHostPort :: "string \<Rightarrow> error + string \<times> string" where
  "SplitHostPort hostport =
     (let i = LastIndexByte hostport (CHR '':'') in
      if i < 0 then addrErr hostport missingPort
      else if hostport ! 0 = CHR ''['' then
        (let end' = IndexByte hostport (CHR '']'') in
         if end' < 0 then addrErr hostport ''missing ']' in address''
         else if end' + 1 = int (length hostport) then addrErr hostport missingPort
         else if end' + 1 = i then
           SplitHostPort_rest hostport i (drop 1 (take (nat end') hostport)) 1 (nat (end' + 1))
         else if hostport ! nat (end' + 1) = CHR '':'' then addrErr hostport tooManyColons
         else addrErr hostport missingPort)
      else
        (let host = take (nat i) hostport in
         if IndexByte host (CHR '':'') \<ge> 0 then addrErr hostport tooManyColons
         else SplitHostPort_rest hostport i host 0 0))"

text \<open>\<^verbatim>\<open>net.JoinHostPort\<close>: a host with a colon is taken for an IPv6 literal and bracketed.\<close>

definition JoinHostPort :: "string \<Rightarrow> string \<Rightarrow> string" where
  "JoinHostPort host port =
     (if IndexByte host (CHR '':'') \<ge> 0 then ''['' @ host @ '']:'' @ port
      else host @ '':'' @ port)"

subsection \<open>simplessh.go\<close>

definition addPortToHost :: "string \<Rightarrow> string" where
  "addPortToHost host =
     (case SplitHostPort host of
        Inl err \<Rightarrow> JoinHostPort host ''22''
      | Inr hp \<Rightarrow> host)"

text \<open>
  \<^verbatim>\<open>connect\<close>: the user name, then the configuration, the endpoint, the dial and the
  handshake; the first error ends the call.
\<close>

definition resolve_username :: "World \<Rightarrow> string \<Rightarrow> (error + string) io" where
  "resolve_username w username =
     (if username = [] then
        (case user_Current w of
           Inl err \<Rightarrow>
             ([EvUserCurrent],
              Inl (Errorf ''Username wasn't specified and couldn't get current user: %v'' [err]))
         | Inr user \<Rightarrow> ([EvUserCurrent], Inr (Username user)))
      else ([], Inr username))"

definition connect ::
  "World \<Rightarrow> string \<Rightarrow> string \<Rightarrow> ssh_AuthMethod \<Rightarrow> Duration \<Rightarrow> (error + Client) io" where
  "connect w username host authMethod timeout =
     (case resolve_username w username of
        (evs, Inl err) \<Rightarrow> (evs, Inl err)
      | (evs, Inr username') \<Rightarrow>
          (let config = \<lparr>User = username', Auth = [authMethod], HostKeyCallback = None,
                         ClientVersion = [], HostKeyAlgorithms = [], Timeout = 0\<rparr>;
               host' = addPortToHost host
           in after (evs @ [EvDialTimeout ''tcp'' host' timeout])
                (case net_DialTimeout w ''tcp'' host' timeout of
                   Inl err \<Rightarrow> ([], Inl err)
                 | Inr conn \<Rightarrow>
                     after [EvNewClientConn conn host' config]
                       (case ssh_NewClientConn w conn host' config of
                          Inl err \<Rightarrow> ([], Inl err)
                        | Inr sshConn \<Rightarrow> ([], Inr \<lparr>SSHClient = NewClient sshConn\<rparr>)))))"

definition ConnectWithPasswordTimeout ::
  "World \<Rightarrow> string \<Rightarrow> string \<Rightarrow> string \<Rightarrow> Duration \<Rightarrow> (error + Client) io" where
  "ConnectWithPasswordTimeout w host username pass timeout =
     (let authMethod = Password pass in connect w username host authMethod timeout)"

definition ConnectWithPassword ::
  "World \<Rightarrow> string \<Rightarrow> string \<Rightarrow> string \<Rightarrow> (error + Client) io" where
  "ConnectWithPassword w host username pass =
     ConnectWithPasswordTimeout w host username pass DefaultTimeout"

definition ConnectWithKeyTimeout ::
  "World \<Rightarrow> string \<Rightarrow> string \<Rightarrow> string \<Rightarrow> Duration \<Rightarrow> (error + Client) io" where
  "ConnectWithKeyTimeout w host username privKey timeout =
     after [EvParsePrivateKey privKey]
       (case ssh_ParsePrivateKey w privKey of
          Inl err \<Rightarrow> ([], Inl err)
        | Inr signer \<Rightarrow>
            (let authMethod = PublicKeys [signer] in connect w username host authMethod timeout))"

definition ConnectWithKey ::
  "World \<Rightarrow> string \<Rightarrow> string \<Rightarrow> string \<Rightarrow> (error + Client) io" where
  "ConnectWithKey w host username privKey =
     ConnectWithKeyTimeout w host username privKey DefaultTimeout"

text \<open>
  The path of the key file: an empty path is replaced when the current user is known,
  and stays empty when the lookup fails (\<^verbatim>\<open>if err == nil\<close>).
\<close>

definition default_key_path :: "World \<Rightarrow> string \<Rightarrow> string io" where
  "default_key_path w privKeyPath =
     (if privKeyPath = [] then
        (case user_Current w of
           Inr currentUser \<Rightarrow>
             ([EvUserCurrent], filepath_Join w [HomeDir currentUser, ''.ssh'', ''id_rsa''])
         | Inl err \<Rightarrow> ([EvUserCurrent], privKeyPath))
      else ([], privKeyPath))"

definition ConnectWithKeyFileTimeout ::
  "World \<Rightarrow> string \<Rightarrow> string \<Rightarrow> string \<Rightarrow> Duration \<Rightarrow> (error + Client) io" where
  "ConnectWithKeyFileTimeout w host username privKeyPath timeout =
     (case default_key_path w privKeyPath of
        (evs, privKeyPath') \<Rightarrow>
          after (evs @ [EvReadFile privKeyPath'])
            (case ioutil_ReadFile w privKeyPath' of
               Inl err \<Rightarrow> ([], Inl err)
             | Inr privKey \<Rightarrow> ConnectWithKeyTimeout w host username privKey timeout))"

definition ConnectWithKeyFile ::
  "World \<Rightarrow> string \<Rightarrow> string \<Rightarrow> string \<Rightarrow> (error + Client) io" where
  "ConnectWithKeyFile w host username privKeyPath =
     ConnectWithKeyFileTimeout w host username privKeyPath DefaultTimeout"

definition ConnectWithSshAgentTimeout ::
  "World \<Rightarrow> string \<Rightarrow> string \<Rightarrow> Duration \<Rightarrow> (error + Client) io" where
  "ConnectWithSshAgentTimeout w host username timeout =
     (let sock = os_Getenv w ''SSH_AUTH_SOCK'' in
      after [EvGetenv ''SSH_AUTH_SOCK'', EvDial ''unix'' sock]
        (case net_Dial w ''unix'' sock of
           Inl err \<Rightarrow> ([], Inl err)
         | Inr sshAgent \<Rightarrow>
             (let authMethod = PublicKeysCallback sshAgent
              in connect w username host authMethod timeout)))"

definition ConnectWithSshAgent :: "World \<Rightarrow> string \<Rightarrow> string \<Rightarrow> (error + Client) io" where
  "ConnectWithSshAgent w host username =
     ConnectWithSshAgentTimeout w host username DefaultTimeout"

text \<open>\<^verbatim>\<open>Exec\<close>: the session is closed on return (\<^verbatim>\<open>defer\<close>).\<close>

definition Exec :: "World \<Rightarrow> Client \<Rightarrow> string \<Rightarrow> (bytes \<times> error option) io" where
  "Exec w c cmd =
     after [EvNewSession (SSHClient c)]
       (case ssh_NewSession w (SSHClient c) of
          Inl err \<Rightarrow> ([], ([], Some err))
        | Inr session \<Rightarrow>
            ([EvCombinedOutput session cmd, EvSessionClose session],
             session_CombinedOutput w session cmd))"

text \<open>
  A \<^verbatim>\<open>bytes.Buffer\<close> holds what was written to it, and \<^verbatim>\<open>Write\<close> appends. The session
  writes each chunk of the command's output to the buffer set for its stream.
\<close>

definition Buffer_Write :: "bytes \<Rightarrow> bytes \<Rightarrow> bytes" where
  "Buffer_Write buf p = buf @ p"

fun run_writes :: "chunk list \<Rightarrow> bytes \<times> bytes \<Rightarrow> bytes \<times> bytes" where
  "run_writes [] (stdout, stderr) = (stdout, stderr)"
| "run_writes (ToStdout p # cs) (stdout, stderr) = run_writes cs (Buffer_Write stdout p, stderr)"
| "run_writes (ToStderr p # cs) (stdout, stderr) = run_writes cs (stdout, Buffer_Write stderr p)"

definition ExecWithOutputStreams ::
  "World \<Rightarrow> Client \<Rightarrow> string \<Rightarrow> (bytes \<times> bytes \<times> error option) io" where
  "ExecWithOutputStreams w c cmd =
     after [EvNewSession (SSHClient c)]
       (case ssh_NewSession w (SSHClient c) of
          Inl err \<Rightarrow> ([], ([], [], Some err))
        | Inr session \<Rightarrow>
            (case session_Run w session cmd of
               (writes, err) \<Rightarrow>
                 (case run_writes writes ([], []) of
                    (stdout, stderr) \<Rightarrow>
                      ([EvRun session cmd, EvSessionClose session], (stdout, stderr, err)))))"

definition SFTPClient :: "World \<Rightarrow> Client \<Rightarrow> (error + sftp_Client) io" where
  "SFTPClient w c = ([EvSftpNewClient (SSHClient c)], sftp_NewClient w (SSHClient c))"

text \<open>
  \<^verbatim>\<open>ReadAll\<close>: a failure of \<^verbatim>\<open>SFTPClient\<close> panics; the deferred calls close the file,
  then the sub-client.
\<close>

definition ReadAll :: "World \<Rightarrow> Client \<Rightarrow> string \<Rightarrow> (bytes \<times> error option) outcome io" where
  "ReadAll w c filepath =
     (case SFTPClient w c of
        (evs, Inl err) \<Rightarrow> (evs, Panic err)
      | (evs, Inr sftp) \<Rightarrow>
          after (evs @ [EvSftpOpen sftp filepath])
            (case sftp_Open w sftp filepath of
               Inl err \<Rightarrow> ([EvSftpClose sftp], Return ([], Some err))
             | Inr file \<Rightarrow>
                 ([EvReadAll file, EvFileClose file, EvSftpClose sftp],
                  Return (ioutil_ReadAll w file))))"

definition Close :: "World \<Rightarrow> Client \<Rightarrow> error option io" where
  "Close w c = ([EvClose (SSHClient c)], ssh_Close w (SSHClient c))"

subsection \<open>What the specification says of the streams\<close>

text \<open>The bytes of one stream: its chunks, concatenated in the order of arrival.\<close>

fun stdout_of :: "chunk list \<Rightarrow> bytes" where
  "stdout_of [] = []"
| "stdout_of (ToStdout p # cs) = p @ stdout_of cs"
| "stdout_of (ToStderr p # cs) = stdout_of cs"

fun stderr_of :: "chunk list \<Rightarrow> bytes" where
  "stderr_of [] = []"
| "stderr_of (ToStdout p # cs) = stderr_of cs"
| "stderr_of (ToStderr p # cs) = p @ stderr_of cs"

subsection \<open>Two worlds to run the package in\<close>

text \<open>
  \<open>world_up\<close>: a machine with a user, a key file, an agent, and a server that answers.
  The command it runs writes to both streams and then fails.
\<close>

definition tester :: User where
  "tester = \<lparr>Uid = ''1000'', Gid = ''1000'', Username = ''tester'', Name = ''Tester'',
             HomeDir = ''/home/tester''\<rparr>"

fun join_slash :: "string list \<Rightarrow> string" where
  "join_slash [] = []"
| "join_slash [x] = x"
| "join_slash (x # xs) = x @ ''/'' @ join_slash xs"

definition world_up :: World where
  "world_up =
     \<lparr>user_Current = Inr tester,
      filepath_Join = join_slash,
      ioutil_ReadFile = (\<lambda>path.
         if path = ''/home/tester/.ssh/id_rsa'' then Inr ''KEY''
         else Inl (LibError ''open: no such file or directory'')),
      ssh_ParsePrivateKey = (\<lambda>key.
         if key = ''KEY'' then Inr (Signer 0) else Inl (LibError ''ssh: no key found'')),
      os_Getenv = (\<lambda>key. if key = ''SSH_AUTH_SOCK'' then ''/tmp/agent.sock'' else []),
      net_Dial = (\<lambda>network address.
         if address = ''/tmp/agent.sock'' then Inr (NetConn 1)
         else Inl (LibError ''dial unix: connect: no such file or directory'')),
      net_DialTimeout = (\<lambda>network address timeout. Inr (NetConn 2)),
      ssh_NewClientConn = (\<lambda>conn host config. Inr (SshConn 3)),
      ssh_NewSession = (\<lambda>client. Inr (Session 4)),
      session_CombinedOutput = (\<lambda>session cmd. (''out-err-more'', None)),
      session_Run = (\<lambda>session cmd.
         ([ToStdout ''out-'', ToStderr ''err'', ToStdout ''more''],
          Some (LibError ''Process exited with status 1''))),
      sftp_NewClient = (\<lambda>client. Inr (SftpClient 5)),
      sftp_Open = (\<lambda>sftp path.
         if path = ''/etc/motd'' then Inr (SftpFile 6)
         else Inl (LibError ''file does not exist'')),
      ioutil_ReadAll = (\<lambda>file. (''welcome'', None)),
      ssh_Close = (\<lambda>client. None)\<rparr>"

text \<open>
  \<open>world_down\<close>: no user database, no files, no agent variable, no network, and a
  connection on which no sub-channel opens.
\<close>

definition world_down :: World where
  "world_down =
     \<lparr>user_Current = Inl (LibError ''user: Current not implemented''),
      filepath_Join = join_slash,
      ioutil_ReadFile = (\<lambda>path. Inl (LibError ''open: no such file or directory'')),
      ssh_ParsePrivateKey = (\<lambda>key. Inl (LibError ''ssh: no key found'')),
      os_Getenv = (\<lambda>key. []),
      net_Dial = (\<lambda>network address. Inl (LibError ''dial unix: missing address'')),
      net_DialTimeout = (\<lambda>network address timeout. Inl (LibError ''dial tcp: i/o timeout'')),
      ssh_NewClientConn = (\<lambda>conn host config. Inl (LibError ''ssh: handshake failed'')),
      ssh_NewSession = (\<lambda>client. Inl (LibError ''ssh: unexpected packet'')),
      session_CombinedOutput = (\<lambda>session cmd. ([], Some (LibError ''EOF''))),
      session_Run = (\<lambda>session cmd. ([], Some (LibError ''EOF''))),
      sftp_NewClient = (\<lambda>client. Inl (LibError ''ssh: subsystem request failed'')),
      sftp_Open = (\<lambda>sftp path. Inl (LibError ''file does not exist'')),
      ioutil_ReadAll = (\<lambda>file. ([], Some (LibError ''EOF''))),
      ssh_Close = (\<lambda>client. Some (LibError ''use of closed network connection''))\<rparr>"

definition the_client :: Client where
  "the_client = \<lparr>SSHClient = NewClient (SshConn 3)\<rparr>"

subsection \<open>The configuration that connect builds\<close>

text \<open>The literal of \<^verbatim>\<open>connect\<close>, for a user name and a credential.\<close>

definition config_of :: "string \<Rightarrow> ssh_AuthMethod \<Rightarrow> ssh_ClientConfig" where
  "config_of u a = \<lparr>User = u, Auth = [a], HostKeyCallback = None,
                         ClientVersion = [], HostKeyAlgorithms = [], Timeout = 0\<rparr>"

subsection \<open>Reading a run\<close>

text \<open>The timeouts of the dials of a run.\<close>

fun dial_timeouts :: "event list \<Rightarrow> Duration list" where
  "dial_timeouts [] = []"
| "dial_timeouts (EvDialTimeout network address timeout # evs) = timeout # dial_timeouts evs"
| "dial_timeouts (ev # evs) = dial_timeouts evs"

text \<open>The number of authentication methods, and the host-key callback, of each handshake.\<close>

definition credentials_per_handshake :: "event list \<Rightarrow> nat list" where
  "credentials_per_handshake evs = map (\<lambda>config. length (Auth config)) (handshake_configs evs)"

definition host_key_callbacks :: "event list \<Rightarrow> ssh_HostKeyCallback option list" where
  "host_key_callbacks evs = map HostKeyCallback (handshake_configs evs)"

subsection \<open>Two more worlds\<close>

text \<open>\<open>world_bad_key\<close>: every file can be read, and none holds a key.\<close>

definition world_bad_key :: World where
  "world_bad_key = world_up\<lparr>ioutil_ReadFile := (\<lambda>path. Inr ''not a key'')\<rparr>"

text \<open>
  \<open>world_no_user\<close>: the machine of \<open>world_up\<close>, key file included, where the lookup of
  the current user fails.
\<close>

definition world_no_user :: World where
  "world_no_user = world_up\<lparr>user_Current := Inl (LibError ''user: Current not implemented'')\<rparr>"

section \<open>Properties\<close>

subsection \<open>Searching a string for a byte\<close>

lemma IndexByte_from_absent: "c \<notin> set s \<Longrightarrow> IndexByte_from i s c = -1"
  by (induction s arbitrary: i) auto

lemma IndexByte_from_present: "c \<in> set s \<Longrightarrow> int i \<le> IndexByte_from i s c"
proof (induction s arbitrary: i)
  case Nil
  then show ?case by simp
next
  case (Cons x xs)
  show ?case
  proof (cases "x = c")
    case True
    then show ?thesis by simp
  next
    case False
    with Cons.prems have "c \<in> set xs" by simp
    from Cons.IH [OF this, of "Suc i"] False show ?thesis by simp
  qed
qed

lemma IndexByte_nonneg_iff: "0 \<le> IndexByte s c \<longleftrightarrow> c \<in> set s"
proof
  assume "0 \<le> IndexByte s c"
  then show "c \<in> set s"
    using IndexByte_from_absent [of c s 0] by (auto simp: IndexByte_def)
next
  assume "c \<in> set s"
  then show "0 \<le> IndexByte s c"
    using IndexByte_from_present [of c s 0] by (simp add: IndexByte_def)
qed

lemma LastIndexByte_below_absent:
  "n \<le> length s \<Longrightarrow> c \<notin> set (take n s) \<Longrightarrow> LastIndexByte_below n s c = -1"
proof (induction n)
  case 0
  then show ?case by simp
next
  case (Suc n)
  then have "take (Suc n) s = take n s @ [s ! n]"
    by (simp add: take_Suc_conv_app_nth)
  with Suc show ?case by auto
qed

lemma LastIndexByte_absent: "c \<notin> set s \<Longrightarrow> LastIndexByte s c = -1"
  by (simp add: LastIndexByte_def LastIndexByte_below_absent)

lemma LastIndexByte_below_present:
  "n \<le> length s \<Longrightarrow> c \<in> set (take n s) \<Longrightarrow>
   0 \<le> LastIndexByte_below n s c \<and> LastIndexByte_below n s c < int n \<and>
   s ! nat (LastIndexByte_below n s c) = c \<and>
   c \<notin> set (drop (Suc (nat (LastIndexByte_below n s c))) (take n s))"
proof (induction n)
  case 0
  then show ?case by simp
next
  case (Suc n)
  then have n: "n < length s" by simp
  then have tk: "take (Suc n) s = take n s @ [s ! n]"
    by (simp add: take_Suc_conv_app_nth)
  show ?case
  proof (cases "s ! n = c")
    case True
    then have L: "LastIndexByte_below (Suc n) s c = int n" by simp
    have "drop (Suc n) (take (Suc n) s) = []" by simp
    then show ?thesis unfolding L using True by simp
  next
    case False
    then have L: "LastIndexByte_below (Suc n) s c = LastIndexByte_below n s c" by simp
    from Suc.prems(2) tk False have "c \<in> set (take n s)" by auto
    with Suc.IH n have ih: "0 \<le> LastIndexByte_below n s c" "LastIndexByte_below n s c < int n"
      "s ! nat (LastIndexByte_below n s c) = c"
      "c \<notin> set (drop (Suc (nat (LastIndexByte_below n s c))) (take n s))" by simp_all
    define k where "k = nat (LastIndexByte_below n s c)"
    from ih(1,2) have k: "Suc k \<le> n" by (simp add: k_def)
    have "drop (Suc k) (take (Suc n) s) = drop (Suc k) (take n s) @ [s ! n]"
      unfolding tk using k n by simp
    with ih(4) False have "c \<notin> set (drop (Suc k) (take (Suc n) s))"
      unfolding k_def by simp
    with ih(1,2,3) show ?thesis unfolding L k_def by simp
  qed
qed

lemma LastIndexByte_present:
  assumes "c \<in> set s"
  shows "\<exists>i. i < length s \<and> LastIndexByte s c = int i \<and> s ! i = c \<and> c \<notin> set (drop (Suc i) s)"
proof -
  from LastIndexByte_below_present [of "length s" s c] assms
  have *: "0 \<le> LastIndexByte s c" "LastIndexByte s c < int (length s)"
    "s ! nat (LastIndexByte s c) = c" "c \<notin> set (drop (Suc (nat (LastIndexByte s c))) s)"
    by (simp_all add: LastIndexByte_def)
  show ?thesis
  proof (intro exI conjI)
    show "nat (LastIndexByte s c) < length s" using * by simp
    show "LastIndexByte s c = int (nat (LastIndexByte s c))" using * by simp
    show "s ! nat (LastIndexByte s c) = c" by (rule *)
    show "c \<notin> set (drop (Suc (nat (LastIndexByte s c))) s)" by (rule *)
  qed
qed

lemma SplitHostPort_no_colon:
  "CHR '':'' \<notin> set host \<Longrightarrow> SplitHostPort host = Inl (AddrError missingPort host)"
  by (simp add: SplitHostPort_def LastIndexByte_absent addrErr_def)

lemma JoinHostPort_no_colon:
  "CHR '':'' \<notin> set host \<Longrightarrow> JoinHostPort host port = host @ '':'' @ port"
  using IndexByte_nonneg_iff [of host "CHR '':''"] by (simp add: JoinHostPort_def)

lemma JoinHostPort_colon:
  "CHR '':'' \<in> set host \<Longrightarrow> JoinHostPort host port = ''['' @ host @ '']:'' @ port"
  using IndexByte_nonneg_iff [of host "CHR '':''"] by (simp add: JoinHostPort_def)

lemma count_list_pos_mem: "0 < count_list xs x \<Longrightarrow> x \<in> set xs"
  by (induction xs) (auto split: if_splits)

lemma count_list_absent: "x \<notin> set xs \<Longrightarrow> count_list xs x = 0"
  by (induction xs) auto

lemma SplitHostPort_two_colons:
  assumes two: "2 \<le> count_list host (CHR '':'')" and nob: "CHR ''['' \<notin> set host"
  shows "SplitHostPort host = Inl (AddrError tooManyColons host)"
proof -
  from two have "CHR '':'' \<in> set host"
    by (intro count_list_pos_mem) simp
  then obtain i where i: "i < length host" "LastIndexByte host (CHR '':'') = int i"
    "host ! i = CHR '':''" "CHR '':'' \<notin> set (drop (Suc i) host)"
    using LastIndexByte_present by blast
  have "host = take i host @ host ! i # drop (Suc i) host"
    using i(1) by (simp add: id_take_nth_drop)
  then have "count_list host (CHR '':'') =
      count_list (take i host @ host ! i # drop (Suc i) host) (CHR '':'')" by simp
  also have "\<dots> = count_list (take i host) (CHR '':'') + 1"
    using i(3) count_list_absent [OF i(4)] by simp
  finally have "0 < count_list (take i host) (CHR '':'')" using two by simp
  then have "CHR '':'' \<in> set (take i host)" by (rule count_list_pos_mem)
  then have idx: "0 \<le> IndexByte (take i host) (CHR '':'')"
    by (simp add: IndexByte_nonneg_iff)
  from i(1) have "0 < length host" by (cases host) simp_all
  then have "host ! 0 \<in> set host" by (rule nth_mem)
  with nob have h0: "host ! 0 \<noteq> CHR ''[''" by auto
  show ?thesis
    using i(2) idx h0 by (simp add: SplitHostPort_def addrErr_def)
qed

subsection \<open>Runs and their calls\<close>

lemma fst_after: "fst (after evs r) = evs @ fst r"
  by (simp add: after_def)

lemma snd_after: "snd (after evs r) = snd r"
  by (simp add: after_def)

lemma handshake_configs_append:
  "handshake_configs (xs @ ys) = handshake_configs xs @ handshake_configs ys"
  by (induction xs rule: handshake_configs.induct) simp_all

lemma files_read_append: "files_read (xs @ ys) = files_read xs @ files_read ys"
  by (induction xs rule: files_read.induct) simp_all

lemma dialled_append: "dialled (xs @ ys) = dialled xs @ dialled ys"
  by (induction xs rule: dialled.induct) simp_all

lemma fst_resolve_username:
  "fst (resolve_username w username) = (if username = [] then [EvUserCurrent] else [])"
  by (simp add: resolve_username_def split: sum.splits)

lemma snd_resolve_username:
  "snd (resolve_username w username) =
     (if username = [] then
        (case user_Current w of
           Inl err \<Rightarrow> Inl (Errorf ''Username wasn't specified and couldn't get current user: %v'' [err])
         | Inr user \<Rightarrow> Inr (Username user))
      else Inr username)"
  by (simp add: resolve_username_def split: sum.splits)

text \<open>The run of connect, by cases.\<close>

lemma connect_lookup_fails:
  assumes "snd (resolve_username w username) = Inl err"
  shows "connect w username host a t = (fst (resolve_username w username), Inl err)"
  using assms by (cases "resolve_username w username") (simp add: connect_def)


lemma connect_dial_fails:
  assumes "snd (resolve_username w username) = Inr u"
    and "net_DialTimeout w ''tcp'' (addPortToHost host) t = Inl err"
  shows "connect w username host a t =
    (fst (resolve_username w username) @ [EvDialTimeout ''tcp'' (addPortToHost host) t], Inl err)"
  using assms by (cases "resolve_username w username") (simp add: connect_def after_def Let_def)

lemma connect_dialled:
  assumes "snd (resolve_username w username) = Inr u"
    and "net_DialTimeout w ''tcp'' (addPortToHost host) t = Inr conn"
  shows "connect w username host a t =
    (fst (resolve_username w username) @
       [EvDialTimeout ''tcp'' (addPortToHost host) t,
        EvNewClientConn conn (addPortToHost host) (config_of u a)],
     case ssh_NewClientConn w conn (addPortToHost host) (config_of u a) of
       Inl err \<Rightarrow> Inl err
     | Inr sshConn \<Rightarrow> Inr \<lparr>SSHClient = NewClient sshConn\<rparr>)"
  using assms
  by (cases "resolve_username w username")
     (simp add: connect_def after_def config_of_def Let_def split: sum.splits)

lemma handshake_configs_resolve:
  "handshake_configs (fst (resolve_username w username)) = []"
  by (simp add: fst_resolve_username)

lemma handshake_configs_connect:
  "handshake_configs (fst (connect w username host a t)) =
     (case snd (resolve_username w username) of
        Inl err \<Rightarrow> []
      | Inr u \<Rightarrow>
          (case net_DialTimeout w ''tcp'' (addPortToHost host) t of
             Inl err \<Rightarrow> []
           | Inr conn \<Rightarrow> [config_of u a]))"
proof (cases "snd (resolve_username w username)")
  case (Inl err)
  then show ?thesis
    by (simp add: connect_lookup_fails handshake_configs_resolve)
next
  case (Inr u)
  show ?thesis
  proof (cases "net_DialTimeout w ''tcp'' (addPortToHost host) t")
    case (Inl err)
    with Inr show ?thesis
      by (simp add: connect_dial_fails [OF Inr Inl] handshake_configs_append
          handshake_configs_resolve)
  next
    case r: (Inr conn)
    with Inr show ?thesis
      by (simp add: connect_dialled [OF Inr r] handshake_configs_append
          handshake_configs_resolve)
  qed
qed

subsection \<open>The endpoint\<close>

lemma IndexByte_from_found:
  "c \<in> set s \<Longrightarrow> \<exists>k<length s. IndexByte_from i s c = int (i + k) \<and> s ! k = c"
proof (induction s arbitrary: i)
  case Nil
  then show ?case by simp
next
  case (Cons x xs)
  show ?case
  proof (cases "x = c")
    case True
    then have "IndexByte_from i (x # xs) c = int (i + 0) \<and> (x # xs) ! 0 = c" by simp
    then show ?thesis by blast
  next
    case False
    with Cons.prems have "c \<in> set xs" by simp
    from Cons.IH [OF this, of "Suc i"] obtain k where
      k: "k < length xs" "IndexByte_from (Suc i) xs c = int (Suc i + k)" "xs ! k = c" by blast
    from k False have "Suc k < length (x # xs) \<and>
        IndexByte_from i (x # xs) c = int (i + Suc k) \<and> (x # xs) ! Suc k = c" by simp
    then show ?thesis by blast
  qed
qed

lemma IndexByte_found:
  assumes "0 \<le> IndexByte s c"
  shows "nat (IndexByte s c) < length s \<and> s ! nat (IndexByte s c) = c"
proof -
  from assms have "c \<in> set s" by (simp add: IndexByte_nonneg_iff)
  from IndexByte_from_found [OF this, of 0] show ?thesis
    by (auto simp: IndexByte_def)
qed

lemma SplitHostPort_rest_Inr:
  "SplitHostPort_rest hostport i host j k = Inr (h, p) \<Longrightarrow>
     h = host \<and> p = drop (nat (i + 1)) hostport"
  by (auto simp: SplitHostPort_rest_def addrErr_def split: if_splits)

lemma SplitHostPort_accepts_shape:
  assumes ok: "SplitHostPort host = Inr (h, p)"
  shows "host = h @ '':'' @ p \<or> host = ''['' @ h @ '']:'' @ p"
proof -
  have colon: "CHR '':'' \<in> set host"
  proof (rule ccontr)
    assume "CHR '':'' \<notin> set host"
    then have "SplitHostPort host = Inl (AddrError missingPort host)"
      by (rule SplitHostPort_no_colon)
    with ok show False by simp
  qed
  then obtain i where i: "i < length host" "LastIndexByte host (CHR '':'') = int i"
    "host ! i = CHR '':''"
    using LastIndexByte_present by blast
  have split_i: "host = take i host @ CHR '':'' # drop (Suc i) host"
    using i(1,3) id_take_nth_drop [of i host] by simp
  show ?thesis
  proof (cases "host ! 0 = CHR ''[''")
    case False
    with ok i(2) have "SplitHostPort_rest host (int i) (take i host) 0 0 = Inr (h, p)"
      by (simp add: SplitHostPort_def addrErr_def Let_def split: if_splits)
    from SplitHostPort_rest_Inr [OF this] have "h = take i host" "p = drop (Suc i) host"
      by (simp_all add: nat_add_distrib)
    with split_i show ?thesis by simp
  next
    case True
    define e where "e = IndexByte host (CHR '']'')"
    from ok i(2) True have e: "0 \<le> e" "e + 1 = int i"
      and rest: "SplitHostPort_rest host (int i) (drop 1 (take (nat e) host)) 1 (nat (e + 1)) = Inr (h, p)"
      by (simp_all add: SplitHostPort_def addrErr_def Let_def e_def split: if_splits)
    from SplitHostPort_rest_Inr [OF rest]
    have h: "h = drop 1 (take (nat e) host)" and p: "p = drop (Suc i) host"
      by (simp_all add: nat_add_distrib)
    from IndexByte_found [of host "CHR '']''"] e(1)
    have ne: "nat e < length host" "host ! nat e = CHR '']''"
      by (simp_all add: e_def)
    have "nat e \<noteq> 0" using ne(2) True by auto
    then obtain m where m: "nat e = Suc m" by (cases "nat e") simp_all
    from e m have im: "i = Suc (Suc m)" by linarith
    have t1: "take (Suc m) host = CHR ''['' # drop 1 (take (Suc m) host)"
      using True ne(1) m by (cases host) simp_all
    have t2: "take i host = take (Suc m) host @ [CHR '']'']"
      using ne m im by (simp add: take_Suc_conv_app_nth)
    from split_i t1 t2 h m have "host = ''['' @ h @ '']:'' @ drop (Suc i) host"
      by (metis append.assoc append_Cons append_Nil)
    with p show ?thesis by simp
  qed
qed

text \<open>
  C1 (as amended). A host without a colon gets \<^verbatim>\<open>:22\<close> appended. A host with two or more
  colons and no opening bracket, as a bare IPv6 literal is, has no port for
  \<^verbatim>\<open>SplitHostPort\<close> either, and the endpoint is the host in brackets followed by
  \<^verbatim>\<open>:22\<close>. A host that \<^verbatim>\<open>SplitHostPort\<close> accepts has the form \<^verbatim>\<open>host:port\<close> or
  \<^verbatim>\<open>[host]:port\<close> and is returned unchanged.
\<close>

theorem addPortToHost_endpoint:
  "(CHR '':'' \<notin> set host \<longrightarrow> addPortToHost host = host @ '':22'') \<and>
   (2 \<le> count_list host (CHR '':'') \<and> CHR ''['' \<notin> set host \<longrightarrow>
      addPortToHost host = ''['' @ host @ '']:22'') \<and>
   (SplitHostPort host = Inr (h, p) \<longrightarrow>
      addPortToHost host = host \<and> (host = h @ '':'' @ p \<or> host = ''['' @ h @ '']:'' @ p))"
proof (intro conjI impI)
  assume "CHR '':'' \<notin> set host"
  then show "addPortToHost host = host @ '':22''"
    by (simp add: addPortToHost_def SplitHostPort_no_colon JoinHostPort_no_colon)
next
  assume a: "2 \<le> count_list host (CHR '':'') \<and> CHR ''['' \<notin> set host"
  then have "CHR '':'' \<in> set host" by (intro count_list_pos_mem) simp
  with a show "addPortToHost host = ''['' @ host @ '']:22''"
    by (simp add: addPortToHost_def SplitHostPort_two_colons JoinHostPort_colon)
next
  assume "SplitHostPort host = Inr (h, p)"
  then show "addPortToHost host = host" by (simp add: addPortToHost_def)
next
  assume "SplitHostPort host = Inr (h, p)"
  then show "host = h @ '':'' @ p \<or> host = ''['' @ h @ '']:'' @ p"
    by (rule SplitHostPort_accepts_shape)
qed

theorem addPortToHost_endpoint_witness:
  "addPortToHost ''example.com'' = ''example.com:22'' \<and>
   addPortToHost ''fe80::1'' = ''[fe80::1]:22'' \<and>
   SplitHostPort ''example.com:2222'' = Inr (''example.com'', ''2222'') \<and>
   addPortToHost ''example.com:2222'' = ''example.com:2222'' \<and>
   SplitHostPort ''[::1]:2222'' = Inr (''::1'', ''2222'') \<and>
   addPortToHost ''[::1]:2222'' = ''[::1]:2222''"
proof -
  have s1: "SplitHostPort ''example.com:2222'' = Inr (''example.com'', ''2222'')"
    by code_simp
  have s2: "SplitHostPort ''[::1]:2222'' = Inr (''::1'', ''2222'')"
    by code_simp
  have c1: "CHR '':'' \<notin> set ''example.com''" by simp
  have c2: "2 \<le> count_list ''fe80::1'' (CHR '':'') \<and> CHR ''['' \<notin> set ''fe80::1''" by simp
  from addPortToHost_endpoint [of "''example.com''"] c1
  have "addPortToHost ''example.com'' = ''example.com:22''" by simp
  moreover from addPortToHost_endpoint [of "''fe80::1''"] c2
  have "addPortToHost ''fe80::1'' = ''[fe80::1]:22''" by simp
  moreover from addPortToHost_endpoint [of "''example.com:2222''" "''example.com''" "''2222''"] s1
  have "addPortToHost ''example.com:2222'' = ''example.com:2222''" by simp
  moreover from addPortToHost_endpoint [of "''[::1]:2222''" "''::1''" "''2222''"] s2
  have "addPortToHost ''[::1]:2222'' = ''[::1]:2222''" by simp
  ultimately show ?thesis using s1 s2 by simp
qed

theorem addPortToHost_ipv6_counterexample:
  "SplitHostPort ''::1'' = Inl (AddrError ''too many colons in address'' ''::1'') \<and>
   addPortToHost ''::1'' = ''[::1]:22'' \<and>
   addPortToHost ''::1'' \<noteq> ''::1'' @ '':22''"
  by code_simp

subsection \<open>The session: ReadAll and ExecWithOutputStreams\<close>

lemma dial_timeouts_append: "dial_timeouts (xs @ ys) = dial_timeouts xs @ dial_timeouts ys"
  by (induction xs rule: dial_timeouts.induct) simp_all

lemma is_dial_resolve: "filter is_dial (fst (resolve_username w username)) = []"
  by (simp add: fst_resolve_username)

text \<open>
  C2. When the file-transfer sub-client cannot be constructed, \<^verbatim>\<open>ReadAll\<close> panics with the
  error of the construction and returns nothing. When the sub-client is there and the
  remote path cannot be opened, \<^verbatim>\<open>ReadAll\<close> returns the error of the open as a value,
  after closing the sub-client.
\<close>

theorem ReadAll_panic_or_error:
  "(sftp_NewClient w (SSHClient c) = Inl err \<longrightarrow>
      ReadAll w c filepath = ([EvSftpNewClient (SSHClient c)], Panic err)) \<and>
   (sftp_NewClient w (SSHClient c) = Inr sftp \<and> sftp_Open w sftp filepath = Inl err \<longrightarrow>
      ReadAll w c filepath =
        ([EvSftpNewClient (SSHClient c), EvSftpOpen sftp filepath, EvSftpClose sftp],
         Return ([], Some err)))"
  by (simp add: ReadAll_def SFTPClient_def after_def)

theorem ReadAll_panic_or_error_witness:
  "ReadAll world_down the_client ''/etc/motd'' =
     ([EvSftpNewClient (NewClient (SshConn 3))], Panic (LibError ''ssh: subsystem request failed'')) \<and>
   ReadAll world_up the_client ''/nowhere'' =
     ([EvSftpNewClient (NewClient (SshConn 3)), EvSftpOpen (SftpClient 5) ''/nowhere'',
       EvSftpClose (SftpClient 5)],
      Return ([], Some (LibError ''file does not exist'')))"
proof -
  have d: "sftp_NewClient world_down (SSHClient the_client) =
      Inl (LibError ''ssh: subsystem request failed'')"
    by (simp add: world_down_def)
  have u: "sftp_NewClient world_up (SSHClient the_client) = Inr (SftpClient 5) \<and>
      sftp_Open world_up (SftpClient 5) ''/nowhere'' = Inl (LibError ''file does not exist'')"
    by (simp add: world_up_def)
  from ReadAll_panic_or_error [of world_down the_client "LibError ''ssh: subsystem request failed''"
      "''/etc/motd''"] d
  have "ReadAll world_down the_client ''/etc/motd'' =
     ([EvSftpNewClient (SSHClient the_client)], Panic (LibError ''ssh: subsystem request failed''))"
    by simp
  moreover
  from ReadAll_panic_or_error [of world_up the_client "LibError ''file does not exist''"
      "''/nowhere''" "SftpClient 5"] u
  have "ReadAll world_up the_client ''/nowhere'' =
     ([EvSftpNewClient (SSHClient the_client), EvSftpOpen (SftpClient 5) ''/nowhere'',
       EvSftpClose (SftpClient 5)],
      Return ([], Some (LibError ''file does not exist'')))"
    by simp
  ultimately show ?thesis by (simp add: the_client_def)
qed

text \<open>
  C9. When the command sub-channel opens, \<^verbatim>\<open>ExecWithOutputStreams\<close> returns what the
  command wrote to standard output, what it wrote to standard error, each in its own
  buffer in the order of arrival, and the error of the run as \<^verbatim>\<open>Run\<close> gave it: the
  buffers are the same whether that error is nil or not.
\<close>

lemma run_writes_eq:
  "run_writes cs (out, err) = (out @ stdout_of cs, err @ stderr_of cs)"
  by (induction cs "(out, err)" arbitrary: out err rule: run_writes.induct)
     (simp_all add: Buffer_Write_def)

theorem ExecWithOutputStreams_buffers:
  assumes "ssh_NewSession w (SSHClient c) = Inr session"
    and "session_Run w session cmd = (writes, err)"
  shows "snd (ExecWithOutputStreams w c cmd) = (stdout_of writes, stderr_of writes, err)"
  using assms by (simp add: ExecWithOutputStreams_def snd_after run_writes_eq)

theorem ExecWithOutputStreams_buffers_witness:
  "snd (ExecWithOutputStreams world_up the_client ''make'') =
     (''out-more'', ''err'', Some (LibError ''Process exited with status 1''))"
proof -
  have s: "ssh_NewSession world_up (SSHClient the_client) = Inr (Session 4)"
    by (simp add: world_up_def)
  have r: "session_Run world_up (Session 4) ''make'' =
      ([ToStdout ''out-'', ToStderr ''err'', ToStdout ''more''],
       Some (LibError ''Process exited with status 1''))"
    by (simp add: world_up_def)
  from ExecWithOutputStreams_buffers [OF s r] show ?thesis by simp
qed

subsection \<open>The runs of the connect variants\<close>

lemma filter_is_dial_after:
  "filter is_dial (fst (after evs r)) = filter is_dial evs @ filter is_dial (fst r)"
  by (simp add: after_def)

lemma handshake_configs_after:
  "handshake_configs (fst (after evs r)) = handshake_configs evs @ handshake_configs (fst r)"
  by (simp add: after_def handshake_configs_append)

lemma dial_timeouts_after:
  "dial_timeouts (fst (after evs r)) = dial_timeouts evs @ dial_timeouts (fst r)"
  by (simp add: after_def dial_timeouts_append)

lemma files_read_after:
  "files_read (fst (after evs r)) = files_read evs @ files_read (fst r)"
  by (simp add: after_def files_read_append)

lemma files_read_connect: "files_read (fst (connect w username host a t)) = []"
proof (cases "snd (resolve_username w username)")
  case (Inl err)
  then show ?thesis by (simp add: connect_lookup_fails fst_resolve_username)
next
  case (Inr u)
  show ?thesis
  proof (cases "net_DialTimeout w ''tcp'' (addPortToHost host) t")
    case (Inl err)
    show ?thesis
      by (simp add: connect_dial_fails [OF Inr Inl] files_read_append fst_resolve_username)
  next
    case r: (Inr conn)
    show ?thesis
      by (simp add: connect_dialled [OF Inr r] files_read_append fst_resolve_username)
  qed
qed

lemma dial_timeouts_connect:
  "dial_timeouts (fst (connect w username host a t)) = [] \<or>
   dial_timeouts (fst (connect w username host a t)) = [t]"
proof (cases "snd (resolve_username w username)")
  case (Inl err)
  then show ?thesis by (simp add: connect_lookup_fails fst_resolve_username)
next
  case (Inr u)
  show ?thesis
  proof (cases "net_DialTimeout w ''tcp'' (addPortToHost host) t")
    case (Inl err)
    show ?thesis
      by (simp add: connect_dial_fails [OF Inr Inl] dial_timeouts_append fst_resolve_username)
  next
    case r: (Inr conn)
    show ?thesis
      by (simp add: connect_dialled [OF Inr r] dial_timeouts_append fst_resolve_username)
  qed
qed

text \<open>The only address that connect dials is the endpoint that addPortToHost returns.\<close>

lemma dialled_connect:
  "dialled (fst (connect w username host a t)) = [] \<or>
   dialled (fst (connect w username host a t)) = [addPortToHost host]"
proof (cases "snd (resolve_username w username)")
  case (Inl err)
  then show ?thesis by (simp add: connect_lookup_fails fst_resolve_username)
next
  case (Inr u)
  show ?thesis
  proof (cases "net_DialTimeout w ''tcp'' (addPortToHost host) t")
    case (Inl err)
    show ?thesis
      by (simp add: connect_dial_fails [OF Inr Inl] dialled_append fst_resolve_username)
  next
    case r: (Inr conn)
    show ?thesis
      by (simp add: connect_dialled [OF Inr r] dialled_append fst_resolve_username)
  qed
qed

text \<open>One handshake at most in a run of connect, with the configuration of its literal.\<close>

lemma handshake_configs_connect_cases:
  "handshake_configs (fst (connect w username host a t)) = [] \<or>
   (\<exists>u. handshake_configs (fst (connect w username host a t)) = [config_of u a])"
  by (auto simp: handshake_configs_connect split: sum.splits)

lemma handshake_configs_Password:
  "handshake_configs (fst (ConnectWithPasswordTimeout w host username pass timeout)) = [] \<or>
   (\<exists>u. handshake_configs (fst (ConnectWithPasswordTimeout w host username pass timeout)) =
      [config_of u (Password pass)])"
  using handshake_configs_connect_cases [of w username host "Password pass" timeout]
  by (simp add: ConnectWithPasswordTimeout_def)

lemma handshake_configs_Key:
  "handshake_configs (fst (ConnectWithKeyTimeout w host username privKey timeout)) = [] \<or>
   (\<exists>u signer. handshake_configs (fst (ConnectWithKeyTimeout w host username privKey timeout)) =
      [config_of u (PublicKeys [signer])])"
proof (cases "ssh_ParsePrivateKey w privKey")
  case (Inl err)
  then show ?thesis by (simp add: ConnectWithKeyTimeout_def handshake_configs_after)
next
  case (Inr signer)
  with handshake_configs_connect_cases [of w username host "PublicKeys [signer]" timeout]
  show ?thesis by (auto simp: ConnectWithKeyTimeout_def handshake_configs_after)
qed

lemma handshake_configs_KeyFile:
  "handshake_configs (fst (ConnectWithKeyFileTimeout w host username privKeyPath timeout)) = [] \<or>
   (\<exists>u signer.
      handshake_configs (fst (ConnectWithKeyFileTimeout w host username privKeyPath timeout)) =
      [config_of u (PublicKeys [signer])])"
proof -
  obtain evs path where d: "default_key_path w privKeyPath = (evs, path)"
    by (cases "default_key_path w privKeyPath")
  have evs: "handshake_configs evs = []"
    using d by (auto simp: default_key_path_def split: if_splits sum.splits)
  show ?thesis
  proof (cases "ioutil_ReadFile w path")
    case (Inl err)
    with d evs show ?thesis
      by (simp add: ConnectWithKeyFileTimeout_def handshake_configs_after handshake_configs_append)
  next
    case (Inr privKey)
    with d evs handshake_configs_Key [of w host username privKey timeout] show ?thesis
      by (simp add: ConnectWithKeyFileTimeout_def handshake_configs_after handshake_configs_append)
  qed
qed

lemma handshake_configs_SshAgent:
  "handshake_configs (fst (ConnectWithSshAgentTimeout w host username timeout)) = [] \<or>
   (\<exists>u sshAgent.
      handshake_configs (fst (ConnectWithSshAgentTimeout w host username timeout)) =
      [config_of u (PublicKeysCallback sshAgent)])"
proof (cases "net_Dial w ''unix'' (os_Getenv w ''SSH_AUTH_SOCK'')")
  case (Inl err)
  then show ?thesis
    by (simp add: ConnectWithSshAgentTimeout_def handshake_configs_after Let_def)
next
  case (Inr sshAgent)
  with handshake_configs_connect_cases [of w username host "PublicKeysCallback sshAgent" timeout]
  show ?thesis
    by (auto simp: ConnectWithSshAgentTimeout_def handshake_configs_after Let_def)
qed

subsection \<open>User name and key material\<close>

text \<open>
  C3. In a call of \<^verbatim>\<open>connect\<close> with an empty user name: when the lookup of the current
  user succeeds, the handshake, if the dial lets the call reach it, is given that user's
  name; when the lookup fails, the call returns an error that wraps the lookup's, and its
  only call to a collaborator is the lookup itself, so nothing is dialled.
\<close>

theorem connect_empty_username:
  "(user_Current w = Inr u \<longrightarrow>
      map User (handshake_configs (fst (connect w [] host a t))) =
        (case net_DialTimeout w ''tcp'' (addPortToHost host) t of
           Inl err \<Rightarrow> []
         | Inr conn \<Rightarrow> [Username u])) \<and>
   (user_Current w = Inl err \<longrightarrow>
      connect w [] host a t =
        ([EvUserCurrent],
         Inl (Errorf ''Username wasn't specified and couldn't get current user: %v'' [err])) \<and>
      filter is_dial (fst (connect w [] host a t)) = [])"
proof (intro conjI impI)
  assume "user_Current w = Inr u"
  then have "snd (resolve_username w []) = Inr (Username u)"
    by (simp add: snd_resolve_username)
  then show "map User (handshake_configs (fst (connect w [] host a t))) =
        (case net_DialTimeout w ''tcp'' (addPortToHost host) t of
           Inl err \<Rightarrow> []
         | Inr conn \<Rightarrow> [Username u])"
    by (simp add: handshake_configs_connect config_of_def split: sum.splits)
next
  assume "user_Current w = Inl err"
  then have r: "snd (resolve_username w []) =
      Inl (Errorf ''Username wasn't specified and couldn't get current user: %v'' [err])"
    by (simp add: snd_resolve_username)
  show c: "connect w [] host a t =
        ([EvUserCurrent],
         Inl (Errorf ''Username wasn't specified and couldn't get current user: %v'' [err]))"
    by (simp add: connect_lookup_fails [OF r] fst_resolve_username)
  show "filter is_dial (fst (connect w [] host a t)) = []"
    by (simp add: c)
qed

theorem connect_empty_username_witness:
  "map User (handshake_configs
      (fst (connect world_up [] ''example.com'' (Password ''x'') DefaultTimeout))) = [''tester''] \<and>
   connect world_down [] ''example.com'' (Password ''x'') DefaultTimeout =
     ([EvUserCurrent],
      Inl (Errorf ''Username wasn't specified and couldn't get current user: %v''
             [LibError ''user: Current not implemented''])) \<and>
   filter is_dial (fst (connect world_down [] ''example.com'' (Password ''x'') DefaultTimeout)) = []"
proof -
  have u: "user_Current world_up = Inr tester"
    by (simp add: world_up_def)
  have d: "user_Current world_down = Inl (LibError ''user: Current not implemented'')"
    by (simp add: world_down_def)
  have dial: "net_DialTimeout world_up ''tcp'' (addPortToHost ''example.com'') DefaultTimeout =
      Inr (NetConn 2)"
    by (simp add: world_up_def)
  from connect_empty_username [where w = world_up and u = tester and host = "''example.com''"
      and a = "Password ''x''" and t = DefaultTimeout] u dial
  have "map User (handshake_configs
      (fst (connect world_up [] ''example.com'' (Password ''x'') DefaultTimeout))) = [''tester'']"
    by (simp add: tester_def)
  moreover
  from connect_empty_username [where w = world_down
      and err = "LibError ''user: Current not implemented''" and host = "''example.com''"
      and a = "Password ''x''" and t = DefaultTimeout] d
  have "connect world_down [] ''example.com'' (Password ''x'') DefaultTimeout =
     ([EvUserCurrent],
      Inl (Errorf ''Username wasn't specified and couldn't get current user: %v''
             [LibError ''user: Current not implemented''])) \<and>
   filter is_dial (fst (connect world_down [] ''example.com'' (Password ''x'') DefaultTimeout)) = []"
    by simp
  ultimately show ?thesis by simp
qed

text \<open>
  C4. When the key bytes do not parse, \<^verbatim>\<open>ConnectWithKeyTimeout\<close> and \<^verbatim>\<open>ConnectWithKey\<close>
  return the parse error and their only call is the parse; the key-file variants, once the
  file has been read, return the parse error of its contents and dial nothing.
\<close>

lemma default_key_path_no_dial: "filter is_dial (fst (default_key_path w privKeyPath)) = []"
  by (simp add: default_key_path_def split: sum.splits)

lemma ConnectWithKeyFileTimeout_read:
  assumes "ioutil_ReadFile w (snd (default_key_path w privKeyPath)) = Inr privKey"
  shows "ConnectWithKeyFileTimeout w host username privKeyPath timeout =
     after (fst (default_key_path w privKeyPath) @ [EvReadFile (snd (default_key_path w privKeyPath))])
       (ConnectWithKeyTimeout w host username privKey timeout)"
  using assms
  by (cases "default_key_path w privKeyPath") (simp add: ConnectWithKeyFileTimeout_def)

lemma ConnectWithKeyFileTimeout_unreadable:
  assumes "ioutil_ReadFile w (snd (default_key_path w privKeyPath)) = Inl err"
  shows "ConnectWithKeyFileTimeout w host username privKeyPath timeout =
     (fst (default_key_path w privKeyPath) @ [EvReadFile (snd (default_key_path w privKeyPath))],
      Inl err)"
  using assms
  by (cases "default_key_path w privKeyPath") (simp add: ConnectWithKeyFileTimeout_def after_def)

theorem malformed_key_fails_before_dial:
  "(ssh_ParsePrivateKey w privKey = Inl err \<longrightarrow>
      ConnectWithKeyTimeout w host username privKey timeout = ([EvParsePrivateKey privKey], Inl err) \<and>
      ConnectWithKey w host username privKey = ([EvParsePrivateKey privKey], Inl err)) \<and>
   (ioutil_ReadFile w (snd (default_key_path w privKeyPath)) = Inr privKey \<and>
    ssh_ParsePrivateKey w privKey = Inl err \<longrightarrow>
      snd (ConnectWithKeyFileTimeout w host username privKeyPath timeout) = Inl err \<and>
      filter is_dial (fst (ConnectWithKeyFileTimeout w host username privKeyPath timeout)) = [] \<and>
      snd (ConnectWithKeyFile w host username privKeyPath) = Inl err \<and>
      filter is_dial (fst (ConnectWithKeyFile w host username privKeyPath)) = [])"
proof -
  have key: "ConnectWithKeyTimeout w host username privKey t = ([EvParsePrivateKey privKey], Inl err)"
    if "ssh_ParsePrivateKey w privKey = Inl err" for t
    using that by (simp add: ConnectWithKeyTimeout_def after_def)
  have keyfile: "snd (ConnectWithKeyFileTimeout w host username privKeyPath t) = Inl err \<and>
      filter is_dial (fst (ConnectWithKeyFileTimeout w host username privKeyPath t)) = []"
    if "ioutil_ReadFile w (snd (default_key_path w privKeyPath)) = Inr privKey"
      and "ssh_ParsePrivateKey w privKey = Inl err" for t
    using that
    by (simp add: ConnectWithKeyFileTimeout_read key snd_after filter_is_dial_after
        default_key_path_no_dial)
  show ?thesis
    using key keyfile by (simp add: ConnectWithKey_def ConnectWithKeyFile_def)
qed

theorem malformed_key_fails_before_dial_witness:
  "ConnectWithKeyTimeout world_down ''example.com'' ''tester'' ''garbage'' DefaultTimeout =
     ([EvParsePrivateKey ''garbage''], Inl (LibError ''ssh: no key found'')) \<and>
   ConnectWithKey world_down ''example.com'' ''tester'' ''garbage'' =
     ([EvParsePrivateKey ''garbage''], Inl (LibError ''ssh: no key found'')) \<and>
   snd (ConnectWithKeyFileTimeout world_bad_key ''example.com'' ''tester'' ''/tmp/key'' DefaultTimeout) =
     Inl (LibError ''ssh: no key found'') \<and>
   filter is_dial
     (fst (ConnectWithKeyFileTimeout world_bad_key ''example.com'' ''tester'' ''/tmp/key'' DefaultTimeout)) = [] \<and>
   snd (ConnectWithKeyFile world_bad_key ''example.com'' ''tester'' ''/tmp/key'') =
     Inl (LibError ''ssh: no key found'') \<and>
   filter is_dial (fst (ConnectWithKeyFile world_bad_key ''example.com'' ''tester'' ''/tmp/key'')) = []"
proof -
  have p: "ssh_ParsePrivateKey world_down ''garbage'' = Inl (LibError ''ssh: no key found'')"
    by (simp add: world_down_def)
  have r: "ioutil_ReadFile world_bad_key (snd (default_key_path world_bad_key ''/tmp/key'')) =
      Inr ''not a key'' \<and>
      ssh_ParsePrivateKey world_bad_key ''not a key'' = Inl (LibError ''ssh: no key found'')"
    by (simp add: world_bad_key_def world_up_def default_key_path_def)
  from malformed_key_fails_before_dial [where w = world_down and privKey = "''garbage''"
      and err = "LibError ''ssh: no key found''" and host = "''example.com''"
      and username = "''tester''" and timeout = DefaultTimeout] p
  have "ConnectWithKeyTimeout world_down ''example.com'' ''tester'' ''garbage'' DefaultTimeout =
     ([EvParsePrivateKey ''garbage''], Inl (LibError ''ssh: no key found'')) \<and>
   ConnectWithKey world_down ''example.com'' ''tester'' ''garbage'' =
     ([EvParsePrivateKey ''garbage''], Inl (LibError ''ssh: no key found''))"
    by simp
  moreover
  from malformed_key_fails_before_dial [where w = world_bad_key and privKey = "''not a key''"
      and err = "LibError ''ssh: no key found''" and host = "''example.com''"
      and username = "''tester''" and timeout = DefaultTimeout and privKeyPath = "''/tmp/key''"] r
  have "snd (ConnectWithKeyFileTimeout world_bad_key ''example.com'' ''tester'' ''/tmp/key'' DefaultTimeout) =
     Inl (LibError ''ssh: no key found'') \<and>
   filter is_dial
     (fst (ConnectWithKeyFileTimeout world_bad_key ''example.com'' ''tester'' ''/tmp/key'' DefaultTimeout)) = [] \<and>
   snd (ConnectWithKeyFile world_bad_key ''example.com'' ''tester'' ''/tmp/key'') =
     Inl (LibError ''ssh: no key found'') \<and>
   filter is_dial (fst (ConnectWithKeyFile world_bad_key ''example.com'' ''tester'' ''/tmp/key'')) = []"
    by simp
  ultimately show ?thesis by simp
qed

subsection \<open>Default timeout and agent\<close>

text \<open>
  C5. Each variant without a timeout is its \<^verbatim>\<open>Timeout\<close> counterpart at 30 seconds, the
  value of \<^verbatim>\<open>DefaultTimeout\<close>, which is 30 000 000 000 nanoseconds; a dial made by one of
  them is bounded by that duration.
\<close>

lemma sint_DefaultTimeout: "sint DefaultTimeout = 30 * 1000000000"
  by (simp add: DefaultTimeout_def Second_def)

lemma dial_timeouts_Key:
  "dial_timeouts (fst (ConnectWithKeyTimeout w host username privKey timeout)) = [] \<or>
   dial_timeouts (fst (ConnectWithKeyTimeout w host username privKey timeout)) = [timeout]"
proof (cases "ssh_ParsePrivateKey w privKey")
  case (Inl err)
  then show ?thesis by (simp add: ConnectWithKeyTimeout_def dial_timeouts_after)
next
  case (Inr signer)
  with dial_timeouts_connect [of w username host "PublicKeys [signer]" timeout]
  show ?thesis by (simp add: ConnectWithKeyTimeout_def dial_timeouts_after)
qed

lemma dial_timeouts_KeyFile:
  "dial_timeouts (fst (ConnectWithKeyFileTimeout w host username privKeyPath timeout)) = [] \<or>
   dial_timeouts (fst (ConnectWithKeyFileTimeout w host username privKeyPath timeout)) = [timeout]"
proof -
  have evs: "dial_timeouts (fst (default_key_path w privKeyPath)) = []"
    by (simp add: default_key_path_def split: sum.splits)
  show ?thesis
  proof (cases "ioutil_ReadFile w (snd (default_key_path w privKeyPath))")
    case (Inl err)
    show ?thesis
      by (simp add: ConnectWithKeyFileTimeout_unreadable [OF Inl] dial_timeouts_append evs)
  next
    case (Inr privKey)
    from dial_timeouts_Key [of w host username privKey timeout] show ?thesis
      by (simp add: ConnectWithKeyFileTimeout_read [OF Inr] dial_timeouts_after
          dial_timeouts_append evs)
  qed
qed

lemma dial_timeouts_SshAgent:
  "dial_timeouts (fst (ConnectWithSshAgentTimeout w host username timeout)) = [] \<or>
   dial_timeouts (fst (ConnectWithSshAgentTimeout w host username timeout)) = [timeout]"
proof (cases "net_Dial w ''unix'' (os_Getenv w ''SSH_AUTH_SOCK'')")
  case (Inl err)
  then show ?thesis
    by (simp add: ConnectWithSshAgentTimeout_def dial_timeouts_after Let_def)
next
  case (Inr sshAgent)
  with dial_timeouts_connect [of w username host "PublicKeysCallback sshAgent" timeout]
  show ?thesis
    by (simp add: ConnectWithSshAgentTimeout_def dial_timeouts_after Let_def)
qed

theorem default_timeout_variants:
  "ConnectWithPassword w host username pass =
     ConnectWithPasswordTimeout w host username pass (30 * Second) \<and>
   ConnectWithKey w host username privKey =
     ConnectWithKeyTimeout w host username privKey (30 * Second) \<and>
   ConnectWithKeyFile w host username privKeyPath =
     ConnectWithKeyFileTimeout w host username privKeyPath (30 * Second) \<and>
   ConnectWithSshAgent w host username =
     ConnectWithSshAgentTimeout w host username (30 * Second) \<and>
   DefaultTimeout = 30 * Second \<and> sint (30 * Second) = 30 * 1000000000 \<and>
   (dial_timeouts (fst (ConnectWithPassword w host username pass)) = [] \<or>
    dial_timeouts (fst (ConnectWithPassword w host username pass)) = [30 * Second]) \<and>
   (dial_timeouts (fst (ConnectWithKey w host username privKey)) = [] \<or>
    dial_timeouts (fst (ConnectWithKey w host username privKey)) = [30 * Second]) \<and>
   (dial_timeouts (fst (ConnectWithKeyFile w host username privKeyPath)) = [] \<or>
    dial_timeouts (fst (ConnectWithKeyFile w host username privKeyPath)) = [30 * Second]) \<and>
   (dial_timeouts (fst (ConnectWithSshAgent w host username)) = [] \<or>
    dial_timeouts (fst (ConnectWithSshAgent w host username)) = [30 * Second])"
proof -
  have d: "DefaultTimeout = 30 * Second" by (simp add: DefaultTimeout_def)
  have s: "sint (30 * Second) = 30 * 1000000000"
    using sint_DefaultTimeout by (simp add: d)
  have p: "dial_timeouts (fst (ConnectWithPassword w host username pass)) = [] \<or>
    dial_timeouts (fst (ConnectWithPassword w host username pass)) = [30 * Second]"
    using dial_timeouts_connect [of w username host "Password pass" "30 * Second"]
    by (simp add: ConnectWithPassword_def ConnectWithPasswordTimeout_def d)
  have k: "dial_timeouts (fst (ConnectWithKey w host username privKey)) = [] \<or>
    dial_timeouts (fst (ConnectWithKey w host username privKey)) = [30 * Second]"
    using dial_timeouts_Key [of w host username privKey "30 * Second"]
    by (simp add: ConnectWithKey_def d)
  have f: "dial_timeouts (fst (ConnectWithKeyFile w host username privKeyPath)) = [] \<or>
    dial_timeouts (fst (ConnectWithKeyFile w host username privKeyPath)) = [30 * Second]"
    using dial_timeouts_KeyFile [of w host username privKeyPath "30 * Second"]
    by (simp add: ConnectWithKeyFile_def d)
  have a: "dial_timeouts (fst (ConnectWithSshAgent w host username)) = [] \<or>
    dial_timeouts (fst (ConnectWithSshAgent w host username)) = [30 * Second]"
    using dial_timeouts_SshAgent [of w host username "30 * Second"]
    by (simp add: ConnectWithSshAgent_def d)
  have e: "ConnectWithPassword w host username pass =
     ConnectWithPasswordTimeout w host username pass (30 * Second) \<and>
   ConnectWithKey w host username privKey =
     ConnectWithKeyTimeout w host username privKey (30 * Second) \<and>
   ConnectWithKeyFile w host username privKeyPath =
     ConnectWithKeyFileTimeout w host username privKeyPath (30 * Second) \<and>
   ConnectWithSshAgent w host username =
     ConnectWithSshAgentTimeout w host username (30 * Second)"
    by (simp add: ConnectWithPassword_def ConnectWithKey_def ConnectWithKeyFile_def
        ConnectWithSshAgent_def d)
  from e d s p k f a show ?thesis by blast
qed

text \<open>
  C7. When the dial of the socket named by \<^verbatim>\<open>SSH_AUTH_SOCK\<close> fails, as it does for an
  unset variable (whose value is the empty string) or an unreachable socket, the agent
  variants return that error; their calls are the read of the variable and the dial of
  the socket, and the target host is never dialled.
\<close>

theorem agent_unreachable_fails_before_dial:
  assumes "net_Dial w ''unix'' (os_Getenv w ''SSH_AUTH_SOCK'') = Inl err"
  shows "ConnectWithSshAgentTimeout w host username timeout =
           ([EvGetenv ''SSH_AUTH_SOCK'', EvDial ''unix'' (os_Getenv w ''SSH_AUTH_SOCK'')], Inl err) \<and>
         ConnectWithSshAgent w host username =
           ([EvGetenv ''SSH_AUTH_SOCK'', EvDial ''unix'' (os_Getenv w ''SSH_AUTH_SOCK'')], Inl err) \<and>
         filter is_target_dial (fst (ConnectWithSshAgentTimeout w host username timeout)) = [] \<and>
         filter is_target_dial (fst (ConnectWithSshAgent w host username)) = []"
  using assms
  by (simp add: ConnectWithSshAgent_def ConnectWithSshAgentTimeout_def after_def Let_def)

theorem agent_unreachable_fails_before_dial_witness:
  "os_Getenv world_down ''SSH_AUTH_SOCK'' = [] \<and>
   ConnectWithSshAgentTimeout world_down ''example.com'' ''tester'' DefaultTimeout =
     ([EvGetenv ''SSH_AUTH_SOCK'', EvDial ''unix'' []],
      Inl (LibError ''dial unix: missing address'')) \<and>
   ConnectWithSshAgent world_down ''example.com'' ''tester'' =
     ([EvGetenv ''SSH_AUTH_SOCK'', EvDial ''unix'' []],
      Inl (LibError ''dial unix: missing address'')) \<and>
   filter is_target_dial
     (fst (ConnectWithSshAgentTimeout world_down ''example.com'' ''tester'' DefaultTimeout)) = [] \<and>
   filter is_target_dial (fst (ConnectWithSshAgent world_down ''example.com'' ''tester'')) = []"
proof -
  have g: "os_Getenv world_down ''SSH_AUTH_SOCK'' = []"
    by (simp add: world_down_def)
  have d: "net_Dial world_down ''unix'' (os_Getenv world_down ''SSH_AUTH_SOCK'') =
      Inl (LibError ''dial unix: missing address'')"
    by (simp add: world_down_def)
  from agent_unreachable_fails_before_dial [OF d, of "''example.com''" "''tester''" DefaultTimeout] g
  show ?thesis by simp
qed

subsection \<open>Key file, credential and host key\<close>

text \<open>
  C6 (as amended). With an empty key path, the file read is the home directory of the
  current user joined with \<^verbatim>\<open>.ssh\<close> and \<^verbatim>\<open>id_rsa\<close> when the lookup of the current user
  succeeds, and the empty path when the lookup fails. A path that is given is the path
  read. Whatever the path, when it cannot be read the call returns the error of the read
  and dials nothing.
\<close>

lemma files_read_default_key_path: "files_read (fst (default_key_path w privKeyPath)) = []"
  by (simp add: default_key_path_def split: sum.splits)

lemma files_read_Key: "files_read (fst (ConnectWithKeyTimeout w host username privKey timeout)) = []"
  by (simp add: ConnectWithKeyTimeout_def files_read_after files_read_connect split: sum.splits)

lemma files_read_KeyFile:
  "files_read (fst (ConnectWithKeyFileTimeout w host username privKeyPath timeout)) =
     [snd (default_key_path w privKeyPath)]"
proof (cases "ioutil_ReadFile w (snd (default_key_path w privKeyPath))")
  case (Inl err)
  show ?thesis
    by (simp add: ConnectWithKeyFileTimeout_unreadable [OF Inl] files_read_append
        files_read_default_key_path)
next
  case (Inr privKey)
  show ?thesis
    by (simp add: ConnectWithKeyFileTimeout_read [OF Inr] files_read_after files_read_append
        files_read_default_key_path files_read_Key)
qed

theorem key_file_path_and_read_failure:
  "(user_Current w = Inr u \<longrightarrow>
      files_read (fst (ConnectWithKeyFileTimeout w host username [] timeout)) =
        [filepath_Join w [HomeDir u, ''.ssh'', ''id_rsa'']]) \<and>
   (user_Current w = Inl err \<longrightarrow>
      files_read (fst (ConnectWithKeyFileTimeout w host username [] timeout)) = [[]]) \<and>
   (privKeyPath \<noteq> [] \<longrightarrow>
      files_read (fst (ConnectWithKeyFileTimeout w host username privKeyPath timeout)) =
        [privKeyPath]) \<and>
   (ioutil_ReadFile w (snd (default_key_path w privKeyPath)) = Inl err \<longrightarrow>
      snd (ConnectWithKeyFileTimeout w host username privKeyPath timeout) = Inl err \<and>
      filter is_dial (fst (ConnectWithKeyFileTimeout w host username privKeyPath timeout)) = [] \<and>
      snd (ConnectWithKeyFile w host username privKeyPath) = Inl err \<and>
      filter is_dial (fst (ConnectWithKeyFile w host username privKeyPath)) = [])"
proof (intro conjI impI)
  assume "user_Current w = Inr u"
  then show "files_read (fst (ConnectWithKeyFileTimeout w host username [] timeout)) =
        [filepath_Join w [HomeDir u, ''.ssh'', ''id_rsa'']]"
    by (simp add: files_read_KeyFile default_key_path_def)
next
  assume "user_Current w = Inl err"
  then show "files_read (fst (ConnectWithKeyFileTimeout w host username [] timeout)) = [[]]"
    by (simp add: files_read_KeyFile default_key_path_def)
next
  assume "privKeyPath \<noteq> []"
  then show "files_read (fst (ConnectWithKeyFileTimeout w host username privKeyPath timeout)) =
        [privKeyPath]"
    by (simp add: files_read_KeyFile default_key_path_def)
next
  assume a: "ioutil_ReadFile w (snd (default_key_path w privKeyPath)) = Inl err"
  show "snd (ConnectWithKeyFileTimeout w host username privKeyPath timeout) = Inl err"
    by (simp add: ConnectWithKeyFileTimeout_unreadable [OF a])
  show "filter is_dial (fst (ConnectWithKeyFileTimeout w host username privKeyPath timeout)) = []"
    by (simp add: ConnectWithKeyFileTimeout_unreadable [OF a] default_key_path_no_dial)
  show "snd (ConnectWithKeyFile w host username privKeyPath) = Inl err"
    by (simp add: ConnectWithKeyFile_def ConnectWithKeyFileTimeout_unreadable [OF a])
  show "filter is_dial (fst (ConnectWithKeyFile w host username privKeyPath)) = []"
    by (simp add: ConnectWithKeyFile_def ConnectWithKeyFileTimeout_unreadable [OF a]
        default_key_path_no_dial)
qed

theorem key_file_path_and_read_failure_witness:
  "files_read (fst (ConnectWithKeyFileTimeout world_up ''example.com'' ''tester'' [] DefaultTimeout)) =
     [''/home/tester/.ssh/id_rsa''] \<and>
   files_read (fst (ConnectWithKeyFileTimeout world_down ''example.com'' ''tester'' [] DefaultTimeout)) =
     [[]] \<and>
   files_read (fst (ConnectWithKeyFileTimeout world_up ''example.com'' ''tester'' ''/tmp/key'' DefaultTimeout)) =
     [''/tmp/key''] \<and>
   snd (ConnectWithKeyFileTimeout world_up ''example.com'' ''tester'' ''/tmp/key'' DefaultTimeout) =
     Inl (LibError ''open: no such file or directory'') \<and>
   filter is_dial
     (fst (ConnectWithKeyFileTimeout world_up ''example.com'' ''tester'' ''/tmp/key'' DefaultTimeout)) = [] \<and>
   snd (ConnectWithKeyFile world_up ''example.com'' ''tester'' ''/tmp/key'') =
     Inl (LibError ''open: no such file or directory'') \<and>
   filter is_dial (fst (ConnectWithKeyFile world_up ''example.com'' ''tester'' ''/tmp/key'')) = []"
proof -
  have u: "user_Current world_up = Inr tester"
    by (simp add: world_up_def)
  have j: "filepath_Join world_up [HomeDir tester, ''.ssh'', ''id_rsa''] = ''/home/tester/.ssh/id_rsa''"
    by (simp add: world_up_def tester_def)
  have d: "user_Current world_down = Inl (LibError ''user: Current not implemented'')"
    by (simp add: world_down_def)
  have n: "''/tmp/key'' \<noteq> []" by simp
  have r: "ioutil_ReadFile world_up (snd (default_key_path world_up ''/tmp/key'')) =
      Inl (LibError ''open: no such file or directory'')"
    by (simp add: world_up_def default_key_path_def)
  from key_file_path_and_read_failure [where w = world_up and u = tester
      and host = "''example.com''" and username = "''tester''" and timeout = DefaultTimeout] u j
  have "files_read (fst (ConnectWithKeyFileTimeout world_up ''example.com'' ''tester'' [] DefaultTimeout)) =
     [''/home/tester/.ssh/id_rsa'']"
    by simp
  moreover
  from key_file_path_and_read_failure [where w = world_down
      and err = "LibError ''user: Current not implemented''"
      and host = "''example.com''" and username = "''tester''" and timeout = DefaultTimeout] d
  have "files_read (fst (ConnectWithKeyFileTimeout world_down ''example.com'' ''tester'' [] DefaultTimeout)) =
     [[]]"
    by simp
  moreover
  from key_file_path_and_read_failure [where w = world_up and privKeyPath = "''/tmp/key''"
      and err = "LibError ''open: no such file or directory''"
      and host = "''example.com''" and username = "''tester''" and timeout = DefaultTimeout] n r
  have "files_read (fst (ConnectWithKeyFileTimeout world_up ''example.com'' ''tester'' ''/tmp/key'' DefaultTimeout)) =
     [''/tmp/key''] \<and>
   snd (ConnectWithKeyFileTimeout world_up ''example.com'' ''tester'' ''/tmp/key'' DefaultTimeout) =
     Inl (LibError ''open: no such file or directory'') \<and>
   filter is_dial
     (fst (ConnectWithKeyFileTimeout world_up ''example.com'' ''tester'' ''/tmp/key'' DefaultTimeout)) = [] \<and>
   snd (ConnectWithKeyFile world_up ''example.com'' ''tester'' ''/tmp/key'') =
     Inl (LibError ''open: no such file or directory'') \<and>
   filter is_dial (fst (ConnectWithKeyFile world_up ''example.com'' ''tester'' ''/tmp/key'')) = []"
    by simp
  ultimately show ?thesis by simp
qed

theorem key_file_path_counterexample:
  "user_Current world_no_user = Inl (LibError ''user: Current not implemented'') \<and>
   ioutil_ReadFile world_no_user ''/home/tester/.ssh/id_rsa'' = Inr ''KEY'' \<and>
   ConnectWithKeyFile world_no_user ''example.com'' ''tester'' [] =
     ([EvUserCurrent, EvReadFile []], Inl (LibError ''open: no such file or directory'')) \<and>
   files_read (fst (ConnectWithKeyFile world_no_user ''example.com'' ''tester'' [])) \<noteq>
     [''/home/tester/.ssh/id_rsa'']"
  by (simp add: world_no_user_def world_up_def ConnectWithKeyFile_def
      ConnectWithKeyFileTimeout_def default_key_path_def after_def)

text \<open>
  C8. In a run of any connect variant (password, key, key file or agent, each with and
  without a timeout) there is at most one handshake, and its configuration lists exactly
  one authentication method.
\<close>

theorem one_credential_per_attempt:
  "(credentials_per_handshake (fst (ConnectWithPassword w host username pass)) = [] \<or>
    credentials_per_handshake (fst (ConnectWithPassword w host username pass)) = [1]) \<and>
   (credentials_per_handshake (fst (ConnectWithPasswordTimeout w host username pass timeout)) = [] \<or>
    credentials_per_handshake (fst (ConnectWithPasswordTimeout w host username pass timeout)) = [1]) \<and>
   (credentials_per_handshake (fst (ConnectWithKey w host username privKey)) = [] \<or>
    credentials_per_handshake (fst (ConnectWithKey w host username privKey)) = [1]) \<and>
   (credentials_per_handshake (fst (ConnectWithKeyTimeout w host username privKey timeout)) = [] \<or>
    credentials_per_handshake (fst (ConnectWithKeyTimeout w host username privKey timeout)) = [1]) \<and>
   (credentials_per_handshake (fst (ConnectWithKeyFile w host username privKeyPath)) = [] \<or>
    credentials_per_handshake (fst (ConnectWithKeyFile w host username privKeyPath)) = [1]) \<and>
   (credentials_per_handshake (fst (ConnectWithKeyFileTimeout w host username privKeyPath timeout)) = [] \<or>
    credentials_per_handshake (fst (ConnectWithKeyFileTimeout w host username privKeyPath timeout)) = [1]) \<and>
   (credentials_per_handshake (fst (ConnectWithSshAgent w host username)) = [] \<or>
    credentials_per_handshake (fst (ConnectWithSshAgent w host username)) = [1]) \<and>
   (credentials_per_handshake (fst (ConnectWithSshAgentTimeout w host username timeout)) = [] \<or>
    credentials_per_handshake (fst (ConnectWithSshAgentTimeout w host username timeout)) = [1])"
proof -
  have p: "credentials_per_handshake (fst (ConnectWithPasswordTimeout w host username pass t)) = [] \<or>
      credentials_per_handshake (fst (ConnectWithPasswordTimeout w host username pass t)) = [1]" for t
    using handshake_configs_Password [of w host username pass t]
    by (auto simp: credentials_per_handshake_def config_of_def)
  have k: "credentials_per_handshake (fst (ConnectWithKeyTimeout w host username privKey t)) = [] \<or>
      credentials_per_handshake (fst (ConnectWithKeyTimeout w host username privKey t)) = [1]" for t
    using handshake_configs_Key [of w host username privKey t]
    by (auto simp: credentials_per_handshake_def config_of_def)
  have f: "credentials_per_handshake (fst (ConnectWithKeyFileTimeout w host username privKeyPath t)) = [] \<or>
      credentials_per_handshake (fst (ConnectWithKeyFileTimeout w host username privKeyPath t)) = [1]" for t
    using handshake_configs_KeyFile [of w host username privKeyPath t]
    by (auto simp: credentials_per_handshake_def config_of_def)
  have a: "credentials_per_handshake (fst (ConnectWithSshAgentTimeout w host username t)) = [] \<or>
      credentials_per_handshake (fst (ConnectWithSshAgentTimeout w host username t)) = [1]" for t
    using handshake_configs_SshAgent [of w host username t]
    by (auto simp: credentials_per_handshake_def config_of_def)
  show ?thesis
    unfolding ConnectWithPassword_def ConnectWithKey_def ConnectWithKeyFile_def
      ConnectWithSshAgent_def
    using p k f a by blast
qed

text \<open>
  C10. In a run of any of the variants, the configuration given to the handshake has no
  host-key callback: the field is nil.
\<close>

theorem no_host_key_callback:
  "(host_key_callbacks (fst (ConnectWithPassword w host username pass)) = [] \<or>
    host_key_callbacks (fst (ConnectWithPassword w host username pass)) = [None]) \<and>
   (host_key_callbacks (fst (ConnectWithPasswordTimeout w host username pass timeout)) = [] \<or>
    host_key_callbacks (fst (ConnectWithPasswordTimeout w host username pass timeout)) = [None]) \<and>
   (host_key_callbacks (fst (ConnectWithKey w host username privKey)) = [] \<or>
    host_key_callbacks (fst (ConnectWithKey w host username privKey)) = [None]) \<and>
   (host_key_callbacks (fst (ConnectWithKeyTimeout w host username privKey timeout)) = [] \<or>
    host_key_callbacks (fst (ConnectWithKeyTimeout w host username privKey timeout)) = [None]) \<and>
   (host_key_callbacks (fst (ConnectWithKeyFile w host username privKeyPath)) = [] \<or>
    host_key_callbacks (fst (ConnectWithKeyFile w host username privKeyPath)) = [None]) \<and>
   (host_key_callbacks (fst (ConnectWithKeyFileTimeout w host username privKeyPath timeout)) = [] \<or>
    host_key_callbacks (fst (ConnectWithKeyFileTimeout w host username privKeyPath timeout)) = [None]) \<and>
   (host_key_callbacks (fst (ConnectWithSshAgent w host username)) = [] \<or>
    host_key_callbacks (fst (ConnectWithSshAgent w host username)) = [None]) \<and>
   (host_key_callbacks (fst (ConnectWithSshAgentTimeout w host username timeout)) = [] \<or>
    host_key_callbacks (fst (ConnectWithSshAgentTimeout w host username timeout)) = [None])"
proof -
  have p: "host_key_callbacks (fst (ConnectWithPasswordTimeout w host username pass t)) = [] \<or>
      host_key_callbacks (fst (ConnectWithPasswordTimeout w host username pass t)) = [None]" for t
    using handshake_configs_Password [of w host username pass t]
    by (auto simp: host_key_callbacks_def config_of_def)
  have k: "host_key_callbacks (fst (ConnectWithKeyTimeout w host username privKey t)) = [] \<or>
      host_key_callbacks (fst (ConnectWithKeyTimeout w host username privKey t)) = [None]" for t
    using handshake_configs_Key [of w host username privKey t]
    by (auto simp: host_key_callbacks_def config_of_def)
  have f: "host_key_callbacks (fst (ConnectWithKeyFileTimeout w host username privKeyPath t)) = [] \<or>
      host_key_callbacks (fst (ConnectWithKeyFileTimeout w host username privKeyPath t)) = [None]" for t
    using handshake_configs_KeyFile [of w host username privKeyPath t]
    by (auto simp: host_key_callbacks_def config_of_def)
  have a: "host_key_callbacks (fst (ConnectWithSshAgentTimeout w host username t)) = [] \<or>
      host_key_callbacks (fst (ConnectWithSshAgentTimeout w host username t)) = [None]" for t
    using handshake_configs_SshAgent [of w host username t]
    by (auto simp: host_key_callbacks_def config_of_def)
  show ?thesis
    unfolding ConnectWithPassword_def ConnectWithKey_def ConnectWithKeyFile_def
      ConnectWithSshAgent_def
    using p k f a by blast
qed

text \<open>The handshake is reached in the world that answers, with one credential and no callback.\<close>

lemma world_up_handshakes:
  "credentials_per_handshake (fst (ConnectWithPassword world_up ''example.com'' ''tester'' ''x'')) = [1] \<and>
   host_key_callbacks (fst (ConnectWithPassword world_up ''example.com'' ''tester'' ''x'')) = [None] \<and>
   credentials_per_handshake (fst (ConnectWithKeyFile world_up ''example.com'' [] [])) = [1] \<and>
   host_key_callbacks (fst (ConnectWithKeyFile world_up ''example.com'' [] [])) = [None] \<and>
   credentials_per_handshake (fst (ConnectWithSshAgent world_up ''example.com'' ''tester'')) = [1] \<and>
   host_key_callbacks (fst (ConnectWithSshAgent world_up ''example.com'' ''tester'')) = [None]"
  by (simp add: credentials_per_handshake_def host_key_callbacks_def
      ConnectWithPassword_def ConnectWithPasswordTimeout_def ConnectWithKeyFile_def
      ConnectWithKeyFileTimeout_def ConnectWithKeyTimeout_def ConnectWithSshAgent_def
      ConnectWithSshAgentTimeout_def default_key_path_def connect_def resolve_username_def
      after_def world_up_def tester_def Let_def)

end
